theory Spec2Isabelle
  imports Complex_Main
begin

section \<open>Data model\<close>

text \<open>
  The inventory of \<^verbatim>\<open>inventory_system.py\<close> is a Python dict from item names to
  dicts with the two keys \<^verbatim>\<open>"quantity"\<close> and \<^verbatim>\<open>"price"\<close>. The inner dict is a record,
  the outer one a map from strings. The quantity is a Python \<^verbatim>\<open>int\<close> (unbounded). No
  operation computes with the price: it is stored, copied and compared only, so its type
  is left as a parameter \<open>'p\<close> (a Python \<^verbatim>\<open>float\<close> or \<^verbatim>\<open>int\<close>).
\<close>

record 'p details =
  quantity :: int
  price :: 'p

type_synonym 'p inventory = "string \<rightharpoonup> 'p details"

subsection \<open>The log stream\<close>

text \<open>
  A call \<^verbatim>\<open>logging.warning(fmt, *args)\<close> appends one record with a level, a format string
  and its arguments. Every function below returns the records it emits, in order.
\<close>

datatype levelname = INFO | WARNING | ERROR

datatype arg = PyStr string | PyInt int

datatype log_record = Log (level: levelname) (msg: string) (args: "arg list")

section \<open>Constants\<close>

definition LOW_STOCK_THRESHOLD :: int where
  "LOW_STOCK_THRESHOLD = 5"

definition DATA_FILE :: string where
  "DATA_FILE = ''inventory_data.json''"

section \<open>Inventory store\<close>

text \<open>
  The source mutates \<^verbatim>\<open>inventory_data\<close> in place and returns \<^verbatim>\<open>None\<close>; the model returns
  the mapping after the call together with the log records emitted.
\<close>

definition add_item ::
  "string \<Rightarrow> int \<Rightarrow> 'p \<Rightarrow> 'p inventory \<Rightarrow> 'p inventory \<times> log_record list" where
  "add_item item_name q p inventory_data =
     (case inventory_data item_name of
        Some d \<Rightarrow>
          (inventory_data(item_name \<mapsto> d\<lparr>quantity := quantity d + q\<rparr>),
           [Log INFO ''Increased quantity for %s by %d'' [PyStr item_name, PyInt q]])
      | None \<Rightarrow>
          (inventory_data(item_name \<mapsto> \<lparr>quantity = q, price = p\<rparr>),
           [Log INFO ''Added new item %s with quantity %d'' [PyStr item_name, PyInt q]]))"

definition remove_item ::
  "string \<Rightarrow> int \<Rightarrow> 'p inventory \<Rightarrow> 'p inventory \<times> log_record list" where
  "remove_item item_name q inventory_data =
     (case inventory_data item_name of
        None \<Rightarrow>
          (inventory_data,
           [Log WARNING ''Attempted to remove %s but item not found'' [PyStr item_name]])
      | Some d \<Rightarrow>
          if quantity d < q then
            (inventory_data,
             [Log WARNING ''Cannot remove %d of %s; only %d in stock''
                [PyInt q, PyStr item_name, PyInt (quantity d)]])
          else
            (let d' = d\<lparr>quantity := quantity d - q\<rparr>;
                 removed = Log INFO ''Removed %d of %s'' [PyInt q, PyStr item_name]
             in if quantity d' = 0 then
                  (inventory_data(item_name := None),
                   [removed,
                    Log INFO ''Item %s is now out of stock and removed'' [PyStr item_name]])
                else
                  (inventory_data(item_name \<mapsto> d'), [removed])))"

definition get_qty :: "string \<Rightarrow> 'p inventory \<Rightarrow> int" where
  "get_qty item_name inventory_data =
     (case inventory_data item_name of None \<Rightarrow> 0 | Some d \<Rightarrow> quantity d)"


subsection \<open>Sequences of store operations\<close>

text \<open>
  \<^verbatim>\<open>main()\<close> holds one dict for the whole session and, for the menu choices 1 and 2,
  calls \<open>add_item\<close> or \<open>remove_item\<close> on it with the name, the \<^verbatim>\<open>int(input(...))\<close>
  quantity and the \<^verbatim>\<open>float(input(...))\<close> price the user typed; both conversions accept
  zero and negative numbers. A mapping reachable by store operations is the result of
  running a list of such commands.
\<close>

datatype 'p command = AddItem string int 'p | RemoveItem string int

fun execute :: "'p command \<Rightarrow> 'p inventory \<Rightarrow> 'p inventory" where
  "execute (AddItem name q p) inventory_data = fst (add_item name q p inventory_data)"
| "execute (RemoveItem name q) inventory_data = fst (remove_item name q inventory_data)"

fun run :: "'p command list \<Rightarrow> 'p inventory \<Rightarrow> 'p inventory" where
  "run [] inventory_data = inventory_data"
| "run (c # cs) inventory_data = run cs (execute c inventory_data)"

subsection \<open>Invariants of the data model\<close>

definition non_negative :: "('p::{zero,ord}) inventory \<Rightarrow> bool" where
  "non_negative M = (\<forall>k d. M k = Some d \<longrightarrow> 0 \<le> quantity d \<and> 0 \<le> price d)"

fun add_args_non_negative :: "('p::{zero,ord}) command \<Rightarrow> bool" where
  "add_args_non_negative (AddItem name q p) = (0 \<le> q \<and> 0 \<le> p)"
| "add_args_non_negative (RemoveItem name q) = True"

definition no_zero_quantity :: "'p inventory \<Rightarrow> bool" where
  "no_zero_quantity M = (\<forall>k d. M k = Some d \<longrightarrow> quantity d \<noteq> 0)"

section \<open>Persistence adapter\<close>

subsection \<open>The environment: exceptions and the file at a path\<close>

text \<open>
  The exceptions that \<^verbatim>\<open>open\<close>, \<^verbatim>\<open>json.load\<close> and \<^verbatim>\<open>json.dump\<close> raise, each with the
  message that \<^verbatim>\<open>str(e)\<close> returns. \<^verbatim>\<open>FileNotFoundError\<close>, \<^verbatim>\<open>PermissionError\<close> and
  \<^verbatim>\<open>IsADirectoryError\<close> are subclasses of \<^verbatim>\<open>OSError\<close>; \<open>OSError\<close> stands for its other
  instances (a full disk, a failed read). \<^verbatim>\<open>json.JSONDecodeError\<close> and
  \<^verbatim>\<open>UnicodeDecodeError\<close> are subclasses of \<^verbatim>\<open>ValueError\<close>; \<open>ValueError\<close> and \<open>TypeError\<close>
  stand for the instances of these classes that are in no subclass listed here.
\<close>

datatype py_exception =
    FileNotFoundError string
  | PermissionError string
  | IsADirectoryError string
  | OSError string
  | JSONDecodeError string
  | UnicodeDecodeError string
  | ValueError string
  | TypeError string

fun str :: "py_exception \<Rightarrow> string" where
  "str (FileNotFoundError m) = m"
| "str (PermissionError m) = m"
| "str (IsADirectoryError m) = m"
| "str (OSError m) = m"
| "str (JSONDecodeError m) = m"
| "str (UnicodeDecodeError m) = m"
| "str (ValueError m) = m"
| "str (TypeError m) = m"

fun is_OSError :: "py_exception \<Rightarrow> bool" where
  "is_OSError (FileNotFoundError m) = True"
| "is_OSError (PermissionError m) = True"
| "is_OSError (IsADirectoryError m) = True"
| "is_OSError (OSError m) = True"
| "is_OSError (JSONDecodeError m) = False"
| "is_OSError (UnicodeDecodeError m) = False"
| "is_OSError (ValueError m) = False"
| "is_OSError (TypeError m) = False"

fun is_FileNotFoundError :: "py_exception \<Rightarrow> bool" where
  "is_FileNotFoundError (FileNotFoundError m) = True"
| "is_FileNotFoundError e = False"

fun is_JSONDecodeError :: "py_exception \<Rightarrow> bool" where
  "is_JSONDecodeError (JSONDecodeError m) = True"
| "is_JSONDecodeError e = False"

text \<open>
  What a path names, as this process sees it:
  \<^item> \<open>File r w c\<close>: a regular file with content \<open>c\<close> that the process may open for
    reading if \<open>r\<close> and for writing if \<open>w\<close>;
  \<^item> \<open>Directory\<close>: a directory;
  \<^item> \<open>Missing creatable r w\<close>: nothing. \<open>creatable\<close> says whether the process may create a
    file there (the directory exists and is writable); \<open>r\<close> and \<open>w\<close> are the access the
    process will have to a file it creates there (the mode left by the umask).
  The content type \<open>'f\<close> is the text of the file. There is one process and nothing else
  changes the file system between two calls.
\<close>

datatype 'f node =
    Missing (creatable: bool) (new_readable: bool) (new_writable: bool)
  | Directory
  | File (readable: bool) (writable: bool) (content: 'f)

type_synonym 'f filesystem = "string \<Rightarrow> 'f node"

definition errno_message :: "string \<Rightarrow> string \<Rightarrow> string" where
  "errno_message what path = what @ '': '' @ [CHR 0x27] @ path @ [CHR 0x27]"

definition os_path_exists :: "'f filesystem \<Rightarrow> string \<Rightarrow> bool" where
  "os_path_exists fs path = (case fs path of Missing c r w \<Rightarrow> False | _ \<Rightarrow> True)"

definition open_read :: "'f filesystem \<Rightarrow> string \<Rightarrow> py_exception + 'f" where
  "open_read fs path =
     (case fs path of
        Missing c r w \<Rightarrow>
          Inl (FileNotFoundError (errno_message ''[Errno 2] No such file or directory'' path))
      | Directory \<Rightarrow>
          Inl (IsADirectoryError (errno_message ''[Errno 21] Is a directory'' path))
      | File r w c \<Rightarrow>
          if r then Inr c
          else Inl (PermissionError (errno_message ''[Errno 13] Permission denied'' path)))"

text \<open>
  \<^verbatim>\<open>open(path, "w")\<close> either raises or returns the open, truncated file. The open file is
  the function from the text that has been written to it when it is closed to the file
  system after the \<^verbatim>\<open>with\<close> block. Creating a file succeeds whatever access the new
  file's mode gives afterwards.
\<close>

definition open_write :: "'f filesystem \<Rightarrow> string \<Rightarrow> py_exception + ('f \<Rightarrow> 'f filesystem)" where
  "open_write fs path =
     (case fs path of
        Missing c r w \<Rightarrow>
          if c then Inr (\<lambda>text. fs(path := File r w text))
          else Inl (PermissionError (errno_message ''[Errno 13] Permission denied'' path))
      | Directory \<Rightarrow>
          Inl (IsADirectoryError (errno_message ''[Errno 21] Is a directory'' path))
      | File r w c \<Rightarrow>
          if w then Inr (\<lambda>text. fs(path := File r w text))
          else Inl (PermissionError (errno_message ''[Errno 13] Permission denied'' path)))"

subsection \<open>Loading and saving\<close>

text \<open>
  \<^verbatim>\<open>json.load\<close> and \<^verbatim>\<open>json.dump\<close> belong to the Python library, not to this program, and
  are parameters.
  \<^item> \<open>json_load text\<close> is the outcome of \<^verbatim>\<open>json.load(file)\<close> on an open file with content
    \<open>text\<close>: the decoded inventory, or the exception raised while reading or decoding.
  \<^item> \<open>json_dump inventory_data\<close> is the outcome of \<^verbatim>\<open>json.dump(inventory_data, file, indent=4)\<close>
    and of closing the file: \<open>Inr text\<close> when it completes, having written \<open>text\<close>;
    \<open>Inl (e, partial)\<close> when it raises \<open>e\<close> (an integer too long to print, a value that is
    not serialisable, a failed write) after \<open>partial\<close> has reached the truncated file.
  A result \<open>Inl e\<close> of \<open>load_data\<close> or \<open>save_data\<close> is the exception \<open>e\<close> leaving the
  function; \<open>Inr\<close> is a normal return.

  \<open>load_data\<close> handles \<^verbatim>\<open>(json.JSONDecodeError, FileNotFoundError)\<close> and \<open>save_data\<close>
  handles \<^verbatim>\<open>(OSError, json.JSONDecodeError)\<close>; every other exception propagates.
\<close>

definition load_data ::
  "('f \<Rightarrow> py_exception + 'p inventory) \<Rightarrow> 'f filesystem \<Rightarrow>
   (py_exception + 'p inventory) \<times> log_record list" where
  "load_data json_load fs =
     (if os_path_exists fs DATA_FILE then
        (case (case open_read fs DATA_FILE of Inl e \<Rightarrow> Inl e | Inr text \<Rightarrow> json_load text) of
           Inr data \<Rightarrow> (Inr data, [])
         | Inl e \<Rightarrow>
             if is_JSONDecodeError e \<or> is_FileNotFoundError e then
               (Inr Map.empty,
                [Log ERROR ''Error loading data from %s: %s'' [PyStr DATA_FILE, PyStr (str e)]])
             else (Inl e, []))
      else
        (Inr Map.empty,
         [Log WARNING ''No existing data file found at %s'' [PyStr DATA_FILE]]))"

definition save_data_except ::
  "py_exception \<Rightarrow> 'f filesystem \<Rightarrow> (py_exception + unit) \<times> 'f filesystem \<times> log_record list" where
  "save_data_except e fs =
     (if is_OSError e \<or> is_JSONDecodeError e then
        (Inr (), fs, [Log ERROR ''Error saving inventory data: %s'' [PyStr (str e)]])
      else (Inl e, fs, []))"

definition save_data ::
  "('p inventory \<Rightarrow> (py_exception \<times> 'f) + 'f) \<Rightarrow> 'p inventory \<Rightarrow> 'f filesystem \<Rightarrow>
   (py_exception + unit) \<times> 'f filesystem \<times> log_record list" where
  "save_data json_dump inventory_data fs =
     (case open_write fs DATA_FILE of
        Inl e \<Rightarrow> save_data_except e fs
      | Inr file \<Rightarrow>
          (case json_dump inventory_data of
             Inl (e, partial) \<Rightarrow> save_data_except e (file partial)
           | Inr text \<Rightarrow>
               (Inr (), file text,
                [Log INFO ''Inventory data saved successfully to %s'' [PyStr DATA_FILE]])))"

section \<open>Reporting\<close>

text \<open>
  \<open>check_low_items\<close> first builds the dict \<^verbatim>\<open>low_items\<close> by a comprehension over the
  inventory, then prints and logs one line for each of its entries. The selection is the
  comprehension.
\<close>

definition low_items :: "'p inventory \<Rightarrow> 'p inventory" where
  "low_items inventory_data =
     (\<lambda>item. case inventory_data item of
        None \<Rightarrow> None
      | Some d \<Rightarrow> if quantity d < LOW_STOCK_THRESHOLD then Some d else None)"

section \<open>Properties of the inventory store\<close>

lemma add_item_present:
  "M n = Some d \<Longrightarrow>
   fst (add_item n q p M) = M(n \<mapsto> d\<lparr>quantity := quantity d + q\<rparr>)"
  by (simp add: add_item_def)

lemma add_item_absent:
  "M n = None \<Longrightarrow> fst (add_item n q p M) = M(n \<mapsto> \<lparr>quantity = q, price = p\<rparr>)"
  by (simp add: add_item_def)

lemma remove_item_absent:
  "M n = None \<Longrightarrow>
   remove_item n q M =
     (M, [Log WARNING ''Attempted to remove %s but item not found'' [PyStr n]])"
  by (simp add: remove_item_def)

lemma remove_item_insufficient:
  "M n = Some d \<Longrightarrow> quantity d < q \<Longrightarrow>
   remove_item n q M =
     (M, [Log WARNING ''Cannot remove %d of %s; only %d in stock''
            [PyInt q, PyStr n, PyInt (quantity d)]])"
  by (simp add: remove_item_def)

lemma remove_item_all:
  "M n = Some d \<Longrightarrow> quantity d = q \<Longrightarrow>
   remove_item n q M =
     (M(n := None),
      [Log INFO ''Removed %d of %s'' [PyInt q, PyStr n],
       Log INFO ''Item %s is now out of stock and removed'' [PyStr n]])"
  by (simp add: remove_item_def)

lemma remove_item_part:
  "M n = Some d \<Longrightarrow> q < quantity d \<Longrightarrow>
   remove_item n q M =
     (M(n \<mapsto> d\<lparr>quantity := quantity d - q\<rparr>),
      [Log INFO ''Removed %d of %s'' [PyInt q, PyStr n]])"
  by (simp add: remove_item_def Let_def)

text \<open>
  Claim C1. For every inventory mapping, item name, quantity \<open>q > 0\<close> and price
  \<open>p \<ge> 0\<close>, the quantity reported by \<open>get_qty\<close> after \<open>add_item\<close> is the quantity stored
  for the name before the call (0 if the name was absent) plus \<open>q\<close>.
\<close>

theorem add_item_get_qty:
  fixes p :: "'p::{zero,ord}"
  assumes "0 < q" and "0 \<le> p"
  shows "get_qty n (fst (add_item n q p M)) =
           (case M n of None \<Rightarrow> 0 | Some d \<Rightarrow> quantity d) + q"
  by (cases "M n") (simp_all add: add_item_present add_item_absent get_qty_def)

text \<open>
  The scenario of the specification: starting empty, adding 10 and then 5 of
  \<open>Widget\<close> gives a quantity of 15.
\<close>

theorem add_item_get_qty_witness:
  "(0::int) < 5 \<and> (0::rat) \<le> 999 / 100 \<and>
   get_qty ''Widget''
     (fst (add_item ''Widget'' 5 (999 / 100 :: rat)
        (fst (add_item ''Widget'' 10 (5 / 2) Map.empty)))) = 15"
  using add_item_get_qty [of 5 "999 / 100 :: rat" "''Widget''"
      "fst (add_item ''Widget'' 10 (5 / 2) Map.empty)"]
  by (simp add: add_item_absent)

text \<open>
  Claim C2. When the item name already exists, \<open>add_item\<close> leaves the price of its
  record unchanged whatever the price argument is: the stored price after the call is the
  stored price before it, and the whole result (mapping and log) is the same for any two
  price arguments. The price argument reaches the mapping only through the record that
  \<open>add_item\<close> creates for an absent name (\<open>add_item_absent\<close>).
\<close>

theorem add_item_keeps_price:
  assumes "M n = Some d"
  shows "map_option price (fst (add_item n q p M) n) = Some (price d) \<and>
         add_item n q p M = add_item n q p' M"
  using assms by (simp add: add_item_def)

theorem add_item_keeps_price_witness:
  "[''Widget'' \<mapsto> \<lparr>quantity = 10, price = 5 / 2 :: rat\<rparr>] ''Widget'' =
     Some \<lparr>quantity = 10, price = 5 / 2\<rparr> \<and>
   map_option price
     (fst (add_item ''Widget'' 5 (999 / 100)
        [''Widget'' \<mapsto> \<lparr>quantity = 10, price = 5 / 2 :: rat\<rparr>]) ''Widget'') =
     Some (price \<lparr>quantity = 10, price = 5 / 2 :: rat\<rparr>) \<and>
   add_item ''Widget'' 5 (999 / 100) [''Widget'' \<mapsto> \<lparr>quantity = 10, price = 5 / 2 :: rat\<rparr>] =
   add_item ''Widget'' 5 0 [''Widget'' \<mapsto> \<lparr>quantity = 10, price = 5 / 2\<rparr>]"
proof -
  have present: "[''Widget'' \<mapsto> \<lparr>quantity = 10, price = 5 / 2 :: rat\<rparr>] ''Widget'' =
      Some \<lparr>quantity = 10, price = 5 / 2\<rparr>"
    by simp
  show ?thesis
    by (rule conjI [OF present
          add_item_keeps_price [where M = "[''Widget'' \<mapsto> \<lparr>quantity = 10, price = 5 / 2 :: rat\<rparr>]"
            and n = "''Widget''", OF present]])
qed

text \<open>
  Claim C3. For a quantity \<open>q > 0\<close>, if the name is absent or its stored quantity is
  strictly less than \<open>q\<close>, then \<open>remove_item\<close> returns the mapping it was given, unchanged
  as a whole, and emits exactly one log record, of level WARNING. The call returns
  normally: \<open>remove_item\<close> has no raising path on a typed inventory, so its result has no
  error alternative.
\<close>

theorem remove_item_refused:
  assumes "0 < q"
    and "M n = None \<or> (\<exists>d. M n = Some d \<and> quantity d < q)"
  shows "\<exists>ev. remove_item n q M = (M, [ev]) \<and> level ev = WARNING"
  using assms(2) by (auto simp: remove_item_absent remove_item_insufficient)

theorem remove_item_refused_witness:
  "\<exists>ev. remove_item ''Gadget'' 5 [''Gadget'' \<mapsto> \<lparr>quantity = 3, price = 1 :: rat\<rparr>] =
          ([''Gadget'' \<mapsto> \<lparr>quantity = 3, price = 1\<rparr>], [ev]) \<and> level ev = WARNING"
proof -
  have positive: "(0::int) < 5"
    by simp
  have short: "[''Gadget'' \<mapsto> \<lparr>quantity = 3, price = 1 :: rat\<rparr>] ''Gadget'' = None \<or>
      (\<exists>d. [''Gadget'' \<mapsto> \<lparr>quantity = 3, price = 1 :: rat\<rparr>] ''Gadget'' = Some d \<and> quantity d < 5)"
    by simp
  show ?thesis
    by (rule remove_item_refused
          [where M = "[''Gadget'' \<mapsto> \<lparr>quantity = 3, price = 1 :: rat\<rparr>]" and n = "''Gadget''",
            OF positive short])
qed

text \<open>
  Claim C4. When the name is present with stored quantity \<open>s > 0\<close>, removing exactly
  \<open>s\<close> deletes the record of the name from the mapping (every other key is as before),
  and \<open>get_qty\<close> of the name is 0 afterwards.
\<close>

theorem remove_item_exact_stock:
  assumes "M n = Some d" and "quantity d = s" and "0 < s"
  shows "fst (remove_item n s M) = M(n := None) \<and>
         fst (remove_item n s M) n = None \<and>
         get_qty n (fst (remove_item n s M)) = 0"
  using assms(1,2) by (simp add: remove_item_all get_qty_def)

theorem remove_item_exact_stock_witness:
  "fst (remove_item ''Gadget'' 3 [''Gadget'' \<mapsto> \<lparr>quantity = 3, price = 1 :: rat\<rparr>]) =
     [''Gadget'' \<mapsto> \<lparr>quantity = 3, price = 1\<rparr>](''Gadget'' := None) \<and>
   fst (remove_item ''Gadget'' 3 [''Gadget'' \<mapsto> \<lparr>quantity = 3, price = 1 :: rat\<rparr>]) ''Gadget'' =
     None \<and>
   get_qty ''Gadget''
     (fst (remove_item ''Gadget'' 3 [''Gadget'' \<mapsto> \<lparr>quantity = 3, price = 1 :: rat\<rparr>])) = 0"
proof -
  have present: "[''Gadget'' \<mapsto> \<lparr>quantity = 3, price = 1 :: rat\<rparr>] ''Gadget'' =
      Some \<lparr>quantity = 3, price = 1\<rparr>"
    by simp
  have stock: "quantity \<lparr>quantity = 3, price = 1 :: rat\<rparr> = 3"
    by simp
  have positive: "(0::int) < 3"
    by simp
  show ?thesis
    by (rule remove_item_exact_stock
          [where M = "[''Gadget'' \<mapsto> \<lparr>quantity = 3, price = 1 :: rat\<rparr>]" and n = "''Gadget''",
            OF present stock positive])
qed

subsection \<open>Invariants\<close>

lemma non_negative_empty: "non_negative Map.empty"
  by (simp add: non_negative_def)

lemma non_negative_add_item:
  "non_negative M \<Longrightarrow> 0 \<le> q \<Longrightarrow> 0 \<le> p \<Longrightarrow> non_negative (fst (add_item n q p M))"
  by (auto simp: non_negative_def add_item_def split: option.splits if_splits)

lemma non_negative_remove_item:
  "non_negative M \<Longrightarrow> non_negative (fst (remove_item n q M))"
  by (auto simp: non_negative_def remove_item_def Let_def split: option.splits if_splits)

lemma non_negative_execute:
  "non_negative M \<Longrightarrow> add_args_non_negative c \<Longrightarrow> non_negative (execute c M)"
  by (cases c) (simp_all add: non_negative_add_item non_negative_remove_item)

text \<open>
  Claim C5, as stated: in every mapping reachable by a sequence of \<open>add_item\<close> and
  \<open>remove_item\<close> calls, every quantity and price is non-negative. \<open>add_item\<close> stores its
  arguments as they come, so one call with a negative quantity and price, on the empty
  inventory, refutes it.
\<close>

theorem run_negative_counterexample:
  "run [AddItem ''Widget'' (- 1) (- 1 :: rat)] Map.empty ''Widget'' =
     Some \<lparr>quantity = - 1, price = - 1\<rparr> \<and>
   \<not> non_negative (run [AddItem ''Widget'' (- 1) (- 1 :: rat)] Map.empty)"
proof -
  have stored: "run [AddItem ''Widget'' (- 1) (- 1 :: rat)] Map.empty ''Widget'' =
      Some \<lparr>quantity = - 1, price = - 1\<rparr>"
    by (simp add: add_item_absent)
  have "\<not> non_negative (run [AddItem ''Widget'' (- 1) (- 1 :: rat)] Map.empty)"
  proof
    assume "non_negative (run [AddItem ''Widget'' (- 1) (- 1 :: rat)] Map.empty)"
    with stored have "(0::int) \<le> quantity \<lparr>quantity = - 1, price = - 1 :: rat\<rparr>"
      unfolding non_negative_def by blast
    then show False by simp
  qed
  with stored show ?thesis by (rule conjI)
qed

text \<open>
  Claim C5, amended: starting from a mapping whose quantities and prices are
  non-negative (the empty mapping is one), every sequence of \<open>remove_item\<close> calls with any
  arguments and of \<open>add_item\<close> calls whose quantity and price arguments are non-negative
  leads to a mapping whose quantities and prices are non-negative.
\<close>

theorem run_non_negative:
  assumes "non_negative M" and "list_all add_args_non_negative cs"
  shows "non_negative (run cs M)"
  using assms
proof (induction cs arbitrary: M)
  case Nil
  then show ?case by simp
next
  case (Cons c cs)
  then show ?case by (simp add: non_negative_execute)
qed

theorem run_non_negative_witness:
  "non_negative (run [AddItem ''Widget'' 10 (5 / 2 :: rat), RemoveItem ''Widget'' (- 3),
      AddItem ''Gadget'' 0 0, RemoveItem ''Widget'' 13] Map.empty)"
proof -
  have args: "list_all add_args_non_negative
      [AddItem ''Widget'' 10 (5 / 2 :: rat), RemoveItem ''Widget'' (- 3),
       AddItem ''Gadget'' 0 0, RemoveItem ''Widget'' 13]"
    by simp
  show ?thesis
    by (rule run_non_negative [OF non_negative_empty args])
qed

text \<open>
  Claim C6, as stated: after any \<open>remove_item\<close> call on any mapping, no record has
  quantity 0. \<open>remove_item\<close> deletes only the record it has just decremented to 0. A
  record that is stored with quantity 0 before the call (\<open>add_item\<close> with quantity 0
  creates one) stays: here the request for 5 is refused for insufficient stock and the
  record of quantity 0 is kept.
\<close>

theorem remove_item_zero_quantity_counterexample:
  "fst (remove_item ''Gadget'' 5 [''Gadget'' \<mapsto> \<lparr>quantity = 0, price = 1 :: rat\<rparr>]) ''Gadget'' =
     Some \<lparr>quantity = 0, price = 1\<rparr> \<and>
   \<not> no_zero_quantity
       (fst (remove_item ''Gadget'' 5 [''Gadget'' \<mapsto> \<lparr>quantity = 0, price = 1 :: rat\<rparr>]))"
proof -
  have kept:
    "fst (remove_item ''Gadget'' 5 [''Gadget'' \<mapsto> \<lparr>quantity = 0, price = 1 :: rat\<rparr>]) ''Gadget'' =
      Some \<lparr>quantity = 0, price = 1\<rparr>"
    by (simp add: remove_item_def)
  have "\<not> no_zero_quantity
      (fst (remove_item ''Gadget'' 5 [''Gadget'' \<mapsto> \<lparr>quantity = 0, price = 1 :: rat\<rparr>]))"
  proof
    assume "no_zero_quantity
      (fst (remove_item ''Gadget'' 5 [''Gadget'' \<mapsto> \<lparr>quantity = 0, price = 1 :: rat\<rparr>]))"
    with kept have "quantity \<lparr>quantity = 0, price = 1 :: rat\<rparr> \<noteq> 0"
      unfolding no_zero_quantity_def by blast
    then show False by simp
  qed
  with kept show ?thesis by (rule conjI)
qed

text \<open>
  Claim C6, amended: if no record of the mapping has quantity 0 before a
  \<open>remove_item\<close> call, then none has after it, for every name and quantity argument: a
  record whose quantity the call brings to 0 is deleted, not kept at zero.
\<close>

theorem remove_item_no_zero_quantity:
  assumes "no_zero_quantity M"
  shows "no_zero_quantity (fst (remove_item n q M))"
  using assms
  by (auto simp: no_zero_quantity_def remove_item_def Let_def split: option.splits if_splits)

theorem remove_item_no_zero_quantity_witness:
  "no_zero_quantity
     (fst (remove_item ''Gadget'' 3 [''Gadget'' \<mapsto> \<lparr>quantity = 3, price = 1 :: rat\<rparr>]))"
proof -
  have before: "no_zero_quantity [''Gadget'' \<mapsto> \<lparr>quantity = 3, price = 1 :: rat\<rparr>]"
    by (simp add: no_zero_quantity_def)
  show ?thesis
    by (rule remove_item_no_zero_quantity [OF before])
qed

subsection \<open>Frame\<close>

text \<open>
  Claim C10. \<open>add_item\<close> and \<open>remove_item\<close> on the name \<open>n\<close>, with any arguments, leave
  the entry of every other key as it was: absent if it was absent, and the same record,
  quantity and price, if it was present.
\<close>

theorem store_frame:
  assumes "k \<noteq> n"
  shows "fst (add_item n q p M) k = M k \<and> fst (remove_item n q' M) k = M k"
  using assms by (simp add: add_item_def remove_item_def Let_def split: option.split)

theorem store_frame_witness:
  "''Gadget'' \<noteq> ''Widget'' \<and>
   fst (add_item ''Widget'' 5 (1 :: rat) [''Gadget'' \<mapsto> \<lparr>quantity = 3, price = 1\<rparr>]) ''Gadget'' =
     [''Gadget'' \<mapsto> \<lparr>quantity = 3, price = 1 :: rat\<rparr>] ''Gadget'' \<and>
   fst (remove_item ''Widget'' 2 [''Gadget'' \<mapsto> \<lparr>quantity = 3, price = 1 :: rat\<rparr>]) ''Gadget'' =
     [''Gadget'' \<mapsto> \<lparr>quantity = 3, price = 1 :: rat\<rparr>] ''Gadget''"
proof -
  have other: "''Gadget'' \<noteq> ''Widget''"
    by simp
  show ?thesis
    by (rule conjI [OF other store_frame [OF other]])
qed

section \<open>Properties of the persistence adapter\<close>

lemma load_data_missing:
  "fs DATA_FILE = Missing c r w \<Longrightarrow>
   load_data json_load fs =
     (Inr Map.empty, [Log WARNING ''No existing data file found at %s'' [PyStr DATA_FILE]])"
  by (simp add: load_data_def os_path_exists_def)

lemma load_data_corrupt:
  "fs DATA_FILE = File True w text \<Longrightarrow> json_load text = Inl (JSONDecodeError m) \<Longrightarrow>
   load_data json_load fs =
     (Inr Map.empty,
      [Log ERROR ''Error loading data from %s: %s'' [PyStr DATA_FILE, PyStr m]])"
  by (simp add: load_data_def os_path_exists_def open_read_def)

lemma load_data_decoded:
  "fs DATA_FILE = File True w text \<Longrightarrow> json_load text = Inr data \<Longrightarrow>
   load_data json_load fs = (Inr data, [])"
  by (simp add: load_data_def os_path_exists_def open_read_def)

lemma save_data_written:
  "fs DATA_FILE = File r True old \<or> fs DATA_FILE = Missing True r w \<Longrightarrow>
   json_dump M = Inr text \<Longrightarrow>
   fst (save_data json_dump M fs) = Inr () \<and>
   (\<exists>w'. fst (snd (save_data json_dump M fs)) = fs(DATA_FILE := File r w' text))"
  by (auto simp: save_data_def open_write_def)

lemma save_data_not_opened:
  "fs DATA_FILE = Directory \<or> fs DATA_FILE = File r False old \<or>
   fs DATA_FILE = Missing False r w \<Longrightarrow>
   fst (save_data json_dump M fs) = Inr () \<and> fst (snd (save_data json_dump M fs)) = fs"
  by (auto simp: save_data_def save_data_except_def open_write_def)

lemma save_data_dump_raises:
  "fs DATA_FILE = File r True old \<Longrightarrow> json_dump M = Inl (ValueError m, partial) \<Longrightarrow>
   save_data json_dump M fs = (Inl (ValueError m), fs(DATA_FILE := File r True partial), [])"
  by (simp add: save_data_def save_data_except_def open_write_def)




text \<open>
  Claim C8: \<open>load_data\<close> never lets an exception reach its caller; a missing file gives a
  warning and the empty mapping (\<open>load_data_missing\<close>), a file that cannot be parsed gives
  an error record and the empty mapping (\<open>load_data_corrupt\<close>), and so should a file that
  exists but cannot be opened. The code does not do the last: when the data file path is
  a directory, or a file without read permission, \<^verbatim>\<open>os.path.exists\<close> is true, \<^verbatim>\<open>open\<close>
  raises \<^verbatim>\<open>IsADirectoryError\<close> or \<^verbatim>\<open>PermissionError\<close>, the handler of \<open>load_data\<close> lists
  neither, and the exception leaves \<open>load_data\<close> with nothing logged, for every decoder
  and whatever the other paths name.
\<close>

theorem load_data_propagates:
  "load_data json_load (fs(DATA_FILE := Directory)) =
     (Inl (IsADirectoryError (errno_message ''[Errno 21] Is a directory'' DATA_FILE)), []) \<and>
   load_data json_load (fs(DATA_FILE := File False True text)) =
     (Inl (PermissionError (errno_message ''[Errno 13] Permission denied'' DATA_FILE)), [])"
  by (simp add: load_data_def os_path_exists_def open_read_def)

section \<open>Properties of the low-stock report\<close>

text \<open>
  Claim C9. \<open>check_low_items\<close> selects exactly the items whose quantity is strictly less
  than the threshold 5: an entry is in the selection, with its record, if and only if it
  is in the inventory with a quantity below 5. On the mapping with \<open>A\<close> at quantity 3,
  \<open>B\<close> at 10 and \<open>C\<close> at 5 (any prices) the selected set of names is exactly \<open>{A}\<close>; the
  boundary value 5 is excluded.
\<close>

theorem low_items_selects:
  "(low_items M k = Some d \<longleftrightarrow> M k = Some d \<and> quantity d < 5) \<and>
   dom (low_items [''A'' \<mapsto> \<lparr>quantity = 3, price = pa\<rparr>, ''B'' \<mapsto> \<lparr>quantity = 10, price = pb\<rparr>,
      ''C'' \<mapsto> \<lparr>quantity = 5, price = pc\<rparr>]) = {''A''}"
  by (auto simp: low_items_def LOW_STOCK_THRESHOLD_def dom_def split: option.splits if_splits)

end
